theory Spec2Isabelle
  imports Main "HOL-Library.Word" "HOL-Library.Sublist"
begin

unbundle bit_operations_syntax

section \<open>JavaScript strings and truthiness\<close>

text \<open>
  A JavaScript string is a sequence of UTF-16 code units. String literals of the
  route handler are ASCII; \<open>js\<close> turns such a literal into its code units.
\<close>

type_synonym jsstring = "16 word list"

definition js :: "string \<Rightarrow> jsstring" where
  "js s = map of_char s"

text \<open>
  \<open>String.prototype.trim\<close> removes leading and trailing WhiteSpace and
  LineTerminator code points (ECMAScript, sections 12.2 and 12.3). All of them lie in
  the basic multilingual plane, so the test is on single code units.
\<close>

definition is_whitespace :: "16 word \<Rightarrow> bool" where
  "is_whitespace u =
     (u = 0x0009 \<or> u = 0x000A \<or> u = 0x000B \<or> u = 0x000C \<or> u = 0x000D \<or> u = 0x0020
      \<or> u = 0x00A0 \<or> u = 0x1680 \<or> (0x2000 \<le> u \<and> u \<le> 0x200A) \<or> u = 0x2028
      \<or> u = 0x2029 \<or> u = 0x202F \<or> u = 0x205F \<or> u = 0x3000 \<or> u = 0xFEFF)"

definition trimStart :: "jsstring \<Rightarrow> jsstring" where
  "trimStart s = dropWhile is_whitespace s"

definition trimEnd :: "jsstring \<Rightarrow> jsstring" where
  "trimEnd s = rev (dropWhile is_whitespace (rev s))"

definition trim :: "jsstring \<Rightarrow> jsstring" where
  "trim s = trimEnd (trimStart s)"

text \<open>\<open>s.startsWith(p)\<close> and \<open>s.includes(p)\<close> on code-unit sequences.\<close>

definition startsWith :: "jsstring \<Rightarrow> jsstring \<Rightarrow> bool" where
  "startsWith s p = prefix p s"

definition js_includes :: "jsstring \<Rightarrow> jsstring \<Rightarrow> bool" where
  "js_includes s p = sublist p s"

text \<open>
  Truthiness of a string (the empty string is falsy) and of an optional string
  property (\<open>undefined\<close> is \<open>None\<close>).
\<close>

definition truthy :: "jsstring \<Rightarrow> bool" where
  "truthy s = (s \<noteq> [])"

fun truthy_opt :: "jsstring option \<Rightarrow> bool" where
  "truthy_opt None = False"
| "truthy_opt (Some s) = truthy s"

section \<open>Message normalisation (route handler, lines 13--101)\<close>

datatype Role = System | User | Assistant

text \<open>The optional \<open>data\<close> object of a client message; each property is optional.\<close>

record FileData =
  fileDataUrl :: "jsstring option"
  fileName :: "jsstring option"
  fileType :: "jsstring option"

record ClientMessage =
  role :: Role
  content :: jsstring
  data :: "FileData option"

text \<open>The message parameter of the upstream SDK, as the handler builds it.\<close>

record SdkMessageParam =
  sdk_role :: Role
  sdk_content :: jsstring

definition systemMessageContent :: jsstring where
  "systemMessageContent = js ''You are Neurox, a helpful and friendly AI assistant. Provide concise and accurate answers. If an image is mentioned, acknowledge it appropriately based on the context provided by its name.''"

text \<open>\<open>message.data?.fileDataUrl\<close>, \<open>message.data?.fileName\<close>, \<open>message.data?.fileType\<close>.\<close>

definition data_fileDataUrl :: "ClientMessage \<Rightarrow> jsstring option" where
  "data_fileDataUrl message = (case data message of None \<Rightarrow> None | Some d \<Rightarrow> fileDataUrl d)"

definition data_fileName :: "ClientMessage \<Rightarrow> jsstring option" where
  "data_fileName message = (case data message of None \<Rightarrow> None | Some d \<Rightarrow> fileName d)"

definition data_fileType :: "ClientMessage \<Rightarrow> jsstring option" where
  "data_fileType message = (case data message of None \<Rightarrow> None | Some d \<Rightarrow> fileType d)"

text \<open>
  The template literal of line 74: a line feed, the opening text with a double quote
  (code unit 0x22), the file name, a double quote and the closing text.
\<close>

definition fileAcknowledgement :: "jsstring \<Rightarrow> jsstring" where
  "fileAcknowledgement name =
     [0x000A] @ js ''[User has attached an image: '' @ [0x0022] @ name @ [0x0022]
       @ js ''. Please acknowledge this attachment.]''"

definition combinedText :: "jsstring \<Rightarrow> jsstring \<Rightarrow> jsstring" where
  "combinedText userText name =
     trim (trim userText @ js '' '' @ trim (fileAcknowledgement name))"

text \<open>
  Lines 67--99: the upstream message built for one client message that is not skipped.
  The attachment branch is taken for a user message with a truthy data URL and a truthy
  file name; both arms of the media-type test send the combined text.
\<close>

definition currentSdkMessage :: "ClientMessage \<Rightarrow> SdkMessageParam" where
  "currentSdkMessage message =
     (if role message = User \<and> truthy_opt (data_fileDataUrl message)
         \<and> truthy_opt (data_fileName message)
      then
        (let name = (case data_fileName message of Some n \<Rightarrow> n | None \<Rightarrow> []);
             userText = (if truthy (content message) then content message else [])
         in (if (case data_fileType message of None \<Rightarrow> False
                                               | Some t \<Rightarrow> startsWith t (js ''image/''))
             then \<lparr>sdk_role = User, sdk_content = combinedText userText name\<rparr>
             else \<lparr>sdk_role = User, sdk_content = combinedText userText name\<rparr>))
      else \<lparr>sdk_role = role message, sdk_content = content message\<rparr>)"

text \<open>Line 65: the test that skips a message (\<open>continue\<close>).\<close>

definition skipped :: "ClientMessage \<Rightarrow> bool" where
  "skipped message = (\<not> truthy (content message) \<and> \<not> truthy_opt (data_fileDataUrl message))"

text \<open>Lines 64--101: the loop pushes onto \<open>preparedMessages\<close> in input order.\<close>

fun prepare_loop :: "ClientMessage list \<Rightarrow> SdkMessageParam list \<Rightarrow> SdkMessageParam list" where
  "prepare_loop [] acc = acc"
| "prepare_loop (message # rest) acc =
     (if skipped message then prepare_loop rest acc
      else prepare_loop rest (acc @ [currentSdkMessage message]))"

text \<open>Lines 60--62: the array starts with the fixed system message.\<close>

definition preparedMessages :: "ClientMessage list \<Rightarrow> SdkMessageParam list" where
  "preparedMessages clientMessages =
     prepare_loop clientMessages [\<lparr>sdk_role = System, sdk_content = systemMessageContent\<rparr>]"

section \<open>Thrown values and error responses (lines 178--198)\<close>

text \<open>
  What an awaited call can reject with, as far as the handler inspects it: an instance
  of the SDK's \<open>APIError\<close> (a subclass of \<open>Error\<close>) with its name, message and
  optional status; another \<open>Error\<close> with its name and message; or a thrown object that
  is not an \<open>Error\<close>, with its \<open>name\<close> property when it has one.
\<close>

datatype thrown =
    APIError jsstring jsstring "nat option"
  | OtherError jsstring jsstring
  | NonError "jsstring option"

fun error_name :: "thrown \<Rightarrow> jsstring option" where
  "error_name (APIError n m st) = Some n"
| "error_name (OtherError n m) = Some n"
| "error_name (NonError n) = n"

fun instanceof_Error :: "thrown \<Rightarrow> bool" where
  "instanceof_Error (NonError n) = False"
| "instanceof_Error _ = True"

fun error_message :: "thrown \<Rightarrow> jsstring" where
  "error_message (APIError n m st) = m"
| "error_message (OtherError n m) = m"
| "error_message (NonError n) = []"

text \<open>
  A response the handler returns: its status and either a text body or the readable
  stream.
\<close>

datatype response_body = Text jsstring | StreamBody

record response =
  resp_status :: nat
  resp_body :: response_body

text \<open>
  The response constructor (Fetch standard), called with a body: a status outside
  200..599 throws a RangeError, a null-body status throws a TypeError, and any other
  status gives the response. The fixed statuses the handler uses (200, 400, 500, 504)
  are accepted, so those responses are written directly; the status taken from an
  upstream error goes through the constructor. The messages of the two errors are the
  platform's.
\<close>

definition status_RangeError :: thrown where
  "status_RangeError =
     OtherError (js ''RangeError'') (js ''The status provided is outside the range [200, 599].'')"

definition null_body_TypeError :: thrown where
  "null_body_TypeError =
     OtherError (js ''TypeError'') (js ''Response with null body status cannot have body'')"

definition null_body_status :: "nat \<Rightarrow> bool" where
  "null_body_status k = (k = 101 \<or> k = 103 \<or> k = 204 \<or> k = 205 \<or> k = 304)"

definition NextResponse :: "response_body \<Rightarrow> nat \<Rightarrow> thrown + response" where
  "NextResponse body status =
     (if status < 200 \<or> 599 < status then Inl status_RangeError
      else if null_body_status status then Inl null_body_TypeError
      else Inr \<lparr>resp_status = status, resp_body = body\<rparr>)"

text \<open>Line 181: the test that recognises an abort.\<close>

definition is_abort :: "thrown \<Rightarrow> bool" where
  "is_abort error =
     (error_name error = Some (js ''AbortError'')
      \<or> (instanceof_Error error
          \<and> js_includes (error_message error) (js ''The operation was aborted'')))"

text \<open>
  Lines 181--197: the response the catch block builds, or what building it throws.
  \<open>error.status || 500\<close> yields 500 for an absent status and for the falsy status 0;
  \<open>error.message || ...\<close> yields the fallback text for an empty message.
\<close>

definition catch_response :: "thrown \<Rightarrow> thrown + response" where
  "catch_response error =
     (if is_abort error
      then Inr \<lparr>resp_status = 504,
                resp_body = Text (js ''The request to the AI service timed out.'')\<rparr>
      else (case error of
              APIError n m st \<Rightarrow>
                NextResponse
                  (Text (js ''AI Service Error: ''
                     @ (if truthy m then m else js ''An error occurred with the AI service.'')))
                  (case st of None \<Rightarrow> 500 | Some k \<Rightarrow> if k = 0 then 500 else k)
            | OtherError n m \<Rightarrow>
                Inr \<lparr>resp_status = 500,
                     resp_body = Text (js ''Error processing request: '' @ m)\<rparr>
            | NonError n \<Rightarrow>
                Inr \<lparr>resp_status = 500,
                     resp_body = Text (js ''Error processing request: Unknown server error'')\<rparr>))"

section \<open>Text encoding\<close>

text \<open>
  \<open>TextEncoder.encode\<close>: the code units are read as UTF-16, an unpaired surrogate is
  replaced by U+FFFD, and every code point is written in UTF-8.
\<close>

definition is_high_surrogate :: "16 word \<Rightarrow> bool" where
  "is_high_surrogate u = (0xD800 \<le> u \<and> u \<le> 0xDBFF)"

definition is_low_surrogate :: "16 word \<Rightarrow> bool" where
  "is_low_surrogate u = (0xDC00 \<le> u \<and> u \<le> 0xDFFF)"

definition utf8 :: "nat \<Rightarrow> 8 word list" where
  "utf8 cp =
     (if cp < 0x80 then [of_nat cp]
      else if cp < 0x800 then [of_nat (0xC0 + cp div 64), of_nat (0x80 + cp mod 64)]
      else if cp < 0x10000 then
        [of_nat (0xE0 + cp div 4096), of_nat (0x80 + cp div 64 mod 64), of_nat (0x80 + cp mod 64)]
      else
        [of_nat (0xF0 + cp div 262144), of_nat (0x80 + cp div 4096 mod 64),
         of_nat (0x80 + cp div 64 mod 64), of_nat (0x80 + cp mod 64)])"

fun encode :: "jsstring \<Rightarrow> 8 word list" where
  "encode [] = []"
| "encode [u] = utf8 (if is_high_surrogate u \<or> is_low_surrogate u then 0xFFFD else unat u)"
| "encode (u # v # rest) =
     (if is_high_surrogate u \<and> is_low_surrogate v
      then utf8 (0x10000 + (unat u - 0xD800) * 0x400 + (unat v - 0xDC00)) @ encode rest
      else if is_high_surrogate u \<or> is_low_surrogate u then utf8 0xFFFD @ encode (v # rest)
      else utf8 (unat u) @ encode (v # rest))"

section \<open>Completion chunks (lines 140--149)\<close>

record Delta =
  delta_content :: "jsstring option"

record Choice =
  delta :: "Delta option"
  finish_reason :: "jsstring option"

record ChatCompletionChunk =
  choices :: "Choice list option"

text \<open>\<open>chunk.choices?.[0]?.delta?.content\<close> and \<open>chunk.choices?.[0]?.finish_reason\<close>.\<close>

definition contentDelta :: "ChatCompletionChunk \<Rightarrow> jsstring option" where
  "contentDelta chunk =
     (case choices chunk of
        None \<Rightarrow> None
      | Some [] \<Rightarrow> None
      | Some (c # cs) \<Rightarrow> (case delta c of None \<Rightarrow> None | Some d \<Rightarrow> delta_content d))"

definition finishReason :: "ChatCompletionChunk \<Rightarrow> jsstring option" where
  "finishReason chunk =
     (case choices chunk of
        None \<Rightarrow> None
      | Some [] \<Rightarrow> None
      | Some (c # cs) \<Rightarrow> finish_reason c)"

section \<open>The readable stream's controller\<close>

text \<open>
  The default controller of a \<open>ReadableStream\<close> (WHATWG Streams), as far as the handler
  drives it. \<open>enqueued\<close> and \<open>terminations\<close> are the histories of the chunks accepted
  and of the termination actions that took effect; \<open>queue\<close> holds the chunks the
  consumer has not read yet, and \<open>pendingReads\<close> counts the reads of the consumer that
  wait for a chunk.
\<close>

datatype stream_status = Readable | Closed | Errored

datatype terminal_action = GracefulClose | ErrorRaised thrown

record controller =
  cstate :: stream_status
  closeRequested :: bool
  queue :: "8 word list list"
  pendingReads :: nat
  enqueued :: "8 word list list"
  terminations :: "terminal_action list"

definition new_controller :: controller where
  "new_controller =
     \<lparr>cstate = Readable, closeRequested = False, queue = [], pendingReads = 0,
      enqueued = [], terminations = []\<rparr>"

definition controller_TypeError :: thrown where
  "controller_TypeError = OtherError (js ''TypeError'') (js ''Invalid state: Controller is already closed'')"

definition canCloseOrEnqueue :: "controller \<Rightarrow> bool" where
  "canCloseOrEnqueue c = (\<not> closeRequested c \<and> cstate c = Readable)"

text \<open>
  \<open>controller.enqueue(chunk)\<close>: throws a TypeError unless the stream can take chunks;
  the chunk fulfils a waiting read when there is one and is queued otherwise.
\<close>

definition ctl_enqueue :: "8 word list \<Rightarrow> controller \<Rightarrow> thrown + controller" where
  "ctl_enqueue bytes c =
     (if \<not> canCloseOrEnqueue c then Inl controller_TypeError
      else if 0 < pendingReads c
      then Inr (c\<lparr>pendingReads := pendingReads c - 1, enqueued := enqueued c @ [bytes]\<rparr>)
      else Inr (c\<lparr>queue := queue c @ [bytes], enqueued := enqueued c @ [bytes]\<rparr>))"

text \<open>
  \<open>controller.close()\<close>: throws a TypeError unless the stream can be closed; the stream
  becomes closed at once when nothing is queued (the waiting reads complete), and once
  the queue is drained otherwise.
\<close>

definition ctl_close :: "controller \<Rightarrow> thrown + controller" where
  "ctl_close c =
     (if \<not> canCloseOrEnqueue c then Inl controller_TypeError
      else if queue c = []
      then Inr (c\<lparr>closeRequested := True, cstate := Closed, pendingReads := 0,
                  terminations := terminations c @ [GracefulClose]\<rparr>)
      else Inr (c\<lparr>closeRequested := True,
                  terminations := terminations c @ [GracefulClose]\<rparr>))"

text \<open>
  \<open>controller.error(e)\<close>: does nothing unless the stream is readable; otherwise the
  queue is reset, the stream is errored and the waiting reads fail. It never throws.
\<close>

definition ctl_error :: "thrown \<Rightarrow> controller \<Rightarrow> controller" where
  "ctl_error e c =
     (if cstate c \<noteq> Readable then c
      else c\<lparr>queue := [], cstate := Errored, pendingReads := 0,
             terminations := terminations c @ [ErrorRaised e]\<rparr>)"

text \<open>
  The consumer calls \<open>read()\<close>. On a readable stream the read takes the first queued
  chunk, and taking the last one after a close closes the stream; with nothing queued
  the read waits for the next chunk. On a closed or errored stream the read completes
  at once and changes nothing.
\<close>

definition ctl_read :: "controller \<Rightarrow> controller" where
  "ctl_read c =
     (if cstate c \<noteq> Readable then c
      else if queue c \<noteq> []
      then c\<lparr>queue := tl (queue c),
             cstate := (if closeRequested c \<and> tl (queue c) = [] then Closed else Readable)\<rparr>
      else c\<lparr>pendingReads := pendingReads c + 1\<rparr>)"

text \<open>
  The consumer cancels a readable stream: the stream is closed, its waiting reads
  complete and its queue is reset; then the source's \<open>cancel\<close> callback runs.
\<close>

definition ctl_cancel :: "controller \<Rightarrow> controller" where
  "ctl_cancel c = c\<lparr>queue := [], cstate := Closed, pendingReads := 0\<rparr>"

section \<open>The POST handler as a state machine\<close>

text \<open>
  The handler is an asynchronous function: its code runs in segments separated by the
  points where it awaits the environment. The state holds what the segments share;
  every event is one thing the environment can deliver, and \<open>step\<close> runs the segment
  that the event resumes. Console output is not part of the state.
\<close>

datatype phase = AwaitingBody | AwaitingCreate | Streaming | StreamEnded | Responded | Threw

text \<open>
  \<open>phase\<close> is the await the handler is suspended at (\<open>request.json()\<close>, the create
  call, the next chunk of the loop), or that the loop has ended, or that a response
  without a stream has been returned, or that the handler has thrown out of its catch
  block and returned no response. \<open>bodyRequested\<close> records that \<open>request.json()\<close>
  has been called, \<open>timerArmed\<close> that the timer of line 44 is pending, \<open>aborted\<close> the
  \<open>aborted\<close> flag of the abort controller's signal, \<open>abortCalls\<close> the reasons of the
  \<open>abort\<close> calls issued, \<open>upstreamCalls\<close> the messages of every create request issued and
  \<open>reply\<close> the response returned. \<open>controller\<close> and \<open>streamClosed\<close> belong to the
  readable stream and are set up when it is built.
\<close>

record relay =
  phase :: phase
  bodyRequested :: bool
  timerArmed :: bool
  aborted :: bool
  abortCalls :: "jsstring list"
  upstreamCalls :: "SdkMessageParam list list"
  reply :: "response option"
  controller :: controller
  streamClosed :: bool

text \<open>
  The value \<open>request.json()\<close> resolves to, as far as line 52 and line 54 look at it:
  JSON \<open>null\<close> (destructuring it throws a TypeError), or any other value with its
  \<open>messages\<close> property absent, present but not an array, or an array; the elements of
  the array have the shape the interface \<open>ClientMessage\<close> declares.
\<close>

datatype messages_field = Missing | NotArray | MessageArray "ClientMessage list"

datatype parsed_body = NullBody | ObjectBody messages_field

text \<open>
  The events: the two awaited promises settle, the upstream iterator yields a chunk,
  ends or throws, \<open>API_CALL_TIMEOUT_MS\<close> milliseconds have passed since the timer was
  set, and the consumer of the response body reads a chunk or cancels.
\<close>

datatype event =
    BodyResolved parsed_body
  | BodyRejected thrown
  | CreateResolved
  | CreateRejected thrown
  | ChunkArrives ChatCompletionChunk
  | UpstreamDone
  | UpstreamThrows thrown
  | TimerElapses
  | ClientReads
  | ClientCancels

definition destructure_TypeError :: thrown where
  "destructure_TypeError =
     OtherError (js ''TypeError'') (js ''Cannot destructure property 'messages' of '(intermediate value)' as it is null.'')"

text \<open>
  Lines 32--52: the credential guard, then the abort controller, the timer of
  \<open>API_CALL_TIMEOUT_MS\<close> and the call of \<open>request.json()\<close>.
\<close>

definition API_CALL_TIMEOUT_MS :: nat where
  "API_CALL_TIMEOUT_MS = 55000"

definition POST :: "jsstring option \<Rightarrow> relay" where
  "POST apiKey =
     (if \<not> truthy_opt apiKey
      then \<lparr>phase = Responded, bodyRequested = False, timerArmed = False, aborted = False,
            abortCalls = [], upstreamCalls = [],
            reply = Some \<lparr>resp_status = 500, resp_body = Text (js ''API key not configured'')\<rparr>,
            controller = new_controller, streamClosed = False\<rparr>
      else \<lparr>phase = AwaitingBody, bodyRequested = True, timerArmed = True, aborted = False,
            abortCalls = [], upstreamCalls = [], reply = None,
            controller = new_controller, streamClosed = False\<rparr>)"

text \<open>Lines 44--49: the timer's callback.\<close>

definition timer_callback :: "relay \<Rightarrow> relay" where
  "timer_callback s = s\<lparr>aborted := True, abortCalls := abortCalls s @ [js ''API Call Timeout'']\<rparr>"

text \<open>
  Lines 178--198: the handler's catch block clears the timer and answers; when the
  response constructor throws, the exception leaves the handler and nothing is returned.
\<close>

definition catch_block :: "thrown \<Rightarrow> relay \<Rightarrow> relay" where
  "catch_block error s =
     (case catch_response error of
        Inl e \<Rightarrow> s\<lparr>timerArmed := False, phase := Threw\<rparr>
      | Inr r \<Rightarrow> s\<lparr>timerArmed := False, reply := Some r, phase := Responded\<rparr>)"

text \<open>
  Lines 52--116: validation (lines 54--58 clear the timer and answer 400), normalisation
  and the upstream request, which is issued with the abort controller's signal.
\<close>

definition validation_failure :: "relay \<Rightarrow> relay" where
  "validation_failure s =
     s\<lparr>timerArmed := False,
       reply := Some \<lparr>resp_status = 400,
          resp_body = Text (js ''Invalid request body: 'messages' array is required and cannot be empty.'')\<rparr>,
       phase := Responded\<rparr>"

definition on_body :: "parsed_body \<Rightarrow> relay \<Rightarrow> relay" where
  "on_body b s =
     (case b of
        NullBody \<Rightarrow> catch_block destructure_TypeError s
      | ObjectBody Missing \<Rightarrow> validation_failure s
      | ObjectBody NotArray \<Rightarrow> validation_failure s
      | ObjectBody (MessageArray clientMessages) \<Rightarrow>
          (if length clientMessages = 0 then validation_failure s
           else s\<lparr>upstreamCalls := upstreamCalls s @ [preparedMessages clientMessages],
                  phase := AwaitingCreate\<rparr>))"

text \<open>
  Lines 118--176: the create call has resolved. The timer is cleared, the readable
  stream is built (its \<open>start\<close> runs up to the first await of the loop) and the
  streaming response is returned.
\<close>

definition on_create :: "relay \<Rightarrow> relay" where
  "on_create s =
     s\<lparr>timerArmed := False, controller := new_controller, streamClosed := False,
       reply := Some \<lparr>resp_status = 200, resp_body = StreamBody\<rparr>, phase := Streaming\<rparr>"

text \<open>Lines 129--136: \<open>closeStream\<close>; an exception of \<open>controller.close()\<close> is swallowed.\<close>

definition closeStream :: "relay \<Rightarrow> relay" where
  "closeStream s =
     (if \<not> streamClosed s
      then s\<lparr>controller := (case ctl_close (controller s) of
                               Inl e \<Rightarrow> controller s | Inr c \<Rightarrow> c),
             streamClosed := True\<rparr>
      else s)"

text \<open>Lines 151--160: the loop's catch and finally blocks.\<close>

definition stream_catch :: "thrown \<Rightarrow> relay \<Rightarrow> relay" where
  "stream_catch error s =
     (closeStream
        (if error_name error = Some (js ''AbortError'') then s
         else s\<lparr>controller := ctl_error error (controller s)\<rparr>))\<lparr>phase := StreamEnded\<rparr>"

text \<open>Lines 141--149: one iteration of the loop, on the chunk the iterator yields.\<close>

definition on_chunk :: "ChatCompletionChunk \<Rightarrow> relay \<Rightarrow> relay" where
  "on_chunk chunk s =
     (case (case contentDelta chunk of
              None \<Rightarrow> Inr (controller s)
            | Some d \<Rightarrow> if truthy d then ctl_enqueue (encode d) (controller s)
                        else Inr (controller s)) of
        Inl error \<Rightarrow> stream_catch error s
      | Inr c \<Rightarrow>
          (if truthy_opt (finishReason chunk)
           then (closeStream (s\<lparr>controller := c\<rparr>))\<lparr>phase := StreamEnded\<rparr>
           else s\<lparr>controller := c\<rparr>))"

text \<open>The iterator is exhausted: the loop ends and the finally block runs.\<close>

definition on_done :: "relay \<Rightarrow> relay" where
  "on_done s = (closeStream s)\<lparr>phase := StreamEnded\<rparr>"

text \<open>Lines 162--167: the stream's \<open>cancel\<close> callback.\<close>

definition cancel :: "relay \<Rightarrow> relay" where
  "cancel s =
     (if \<not> aborted s
      then s\<lparr>aborted := True, abortCalls := abortCalls s @ [js ''Client cancelled stream'']\<rparr>
      else s)"

text \<open>
  An event the handler is not waiting for changes nothing: a cleared or fired timer
  does not fire, a loop that has ended reads no further chunk, and the consumer can
  read or cancel only once the stream exists; cancelling a stream that is no longer
  readable does not reach the callback.
\<close>

fun step :: "event \<Rightarrow> relay \<Rightarrow> relay" where
  "step (BodyResolved b) s = (if phase s = AwaitingBody then on_body b s else s)"
| "step (BodyRejected e) s = (if phase s = AwaitingBody then catch_block e s else s)"
| "step CreateResolved s = (if phase s = AwaitingCreate then on_create s else s)"
| "step (CreateRejected e) s = (if phase s = AwaitingCreate then catch_block e s else s)"
| "step (ChunkArrives c) s = (if phase s = Streaming then on_chunk c s else s)"
| "step UpstreamDone s = (if phase s = Streaming then on_done s else s)"
| "step (UpstreamThrows e) s = (if phase s = Streaming then stream_catch e s else s)"
| "step TimerElapses s =
     (if timerArmed s then timer_callback (s\<lparr>timerArmed := False\<rparr>) else s)"
| "step ClientReads s =
     (if phase s = Streaming \<or> phase s = StreamEnded
      then s\<lparr>controller := ctl_read (controller s)\<rparr> else s)"
| "step ClientCancels s =
     (if (phase s = Streaming \<or> phase s = StreamEnded) \<and> cstate (controller s) = Readable
      then cancel (s\<lparr>controller := ctl_cancel (controller s)\<rparr>) else s)"

fun run :: "event list \<Rightarrow> relay \<Rightarrow> relay" where
  "run [] s = s"
| "run (e # es) s = run es (step e s)"

text \<open>
  The prefix of an upstream sequence up to and including the first chunk with a truthy
  finish reason (the whole sequence when there is none).
\<close>

fun consumed :: "ChatCompletionChunk list \<Rightarrow> ChatCompletionChunk list" where
  "consumed [] = []"
| "consumed (c # cs) = (if truthy_opt (finishReason c) then [c] else c # consumed cs)"

text \<open>The non-empty content deltas of a chunk sequence, in order.\<close>

definition deltas :: "ChatCompletionChunk list \<Rightarrow> jsstring list" where
  "deltas cs = concat (map (\<lambda>c. case contentDelta c of
                                   None \<Rightarrow> [] | Some d \<Rightarrow> if truthy d then [d] else []) cs)"

section \<open>Notions used to state the properties\<close>

text \<open>
  Following the specification's words: a message has an attachment when its data carries
  a non-empty data URL, and it survives the empty-turn filter when it has content or an
  attachment.
\<close>

definition has_attachment :: "ClientMessage \<Rightarrow> bool" where
  "has_attachment message =
     (case data message of
        None \<Rightarrow> False
      | Some d \<Rightarrow> (case fileDataUrl d of None \<Rightarrow> False | Some u \<Rightarrow> u \<noteq> []))"

definition survives :: "ClientMessage \<Rightarrow> bool" where
  "survives message = (content message \<noteq> [] \<or> has_attachment message)"

text \<open>
  The acknowledgement line as it is sent: the text of line 74 without its leading line
  feed. \<open>expected_content\<close> is the content sent upstream for a surviving message: for a
  user message with an attachment and a non-empty file name, the trimmed original text
  (if any), a space and the acknowledgement line; for every other message, the original
  content.
\<close>

definition acknowledgement_line :: "jsstring \<Rightarrow> jsstring" where
  "acknowledgement_line name =
     js ''[User has attached an image: '' @ [0x0022] @ name @ [0x0022]
       @ js ''. Please acknowledge this attachment.]''"

definition expected_content :: "ClientMessage \<Rightarrow> jsstring" where
  "expected_content message =
     (case data_fileName message of
        None \<Rightarrow> content message
      | Some name \<Rightarrow>
          if role message = User \<and> has_attachment message \<and> name \<noteq> []
          then (if trim (content message) = [] then acknowledgement_line name
                else trim (content message) @ js '' '' @ acknowledgement_line name)
          else content message)"

text \<open>The chunks among a sequence of events, in order of arrival.\<close>

fun chunks_of :: "event list \<Rightarrow> ChatCompletionChunk list" where
  "chunks_of [] = []"
| "chunks_of (ChunkArrives c # es) = c # chunks_of es"
| "chunks_of (e # es) = chunks_of es"

text \<open>
  The events of an undisturbed streaming phase: chunks arrive, the consumer reads, and
  the deadline may elapse; the upstream neither ends nor fails and the consumer does not
  cancel.
\<close>

fun streaming_event :: "event \<Rightarrow> bool" where
  "streaming_event (ChunkArrives c) = True"
| "streaming_event ClientReads = True"
| "streaming_event TimerElapses = True"
| "streaming_event e = False"

text \<open>The loop is running and the controller accepts chunks.\<close>

definition writable :: "relay \<Rightarrow> bool" where
  "writable s = (phase s = Streaming \<and> canCloseOrEnqueue (controller s) \<and> \<not> streamClosed s)"

text \<open>The stream exists and is no longer readable (closed, cancelled or errored).\<close>

definition detached :: "relay \<Rightarrow> bool" where
  "detached s =
     ((phase s = Streaming \<or> phase s = StreamEnded) \<and> cstate (controller s) \<noteq> Readable)"

text \<open>Invariants of every run of the handler.\<close>

definition timer_inv :: "relay \<Rightarrow> bool" where
  "timer_inv s =
     ((timerArmed s \<longrightarrow> (phase s = AwaitingBody \<or> phase s = AwaitingCreate) \<and> \<not> aborted s)
      \<and> ((phase s = AwaitingBody \<or> phase s = AwaitingCreate) \<and> \<not> aborted s \<longrightarrow> timerArmed s)
      \<and> (aborted s \<longleftrightarrow> abortCalls s \<noteq> [])
      \<and> length (abortCalls s) \<le> 1
      \<and> (phase s = AwaitingBody \<longrightarrow> upstreamCalls s = []))"

definition stream_inv :: "relay \<Rightarrow> bool" where
  "stream_inv s =
     ((phase s \<noteq> StreamEnded \<longrightarrow> \<not> closeRequested (controller s) \<and> \<not> streamClosed s)
      \<and> (canCloseOrEnqueue (controller s) \<longrightarrow> terminations (controller s) = [])
      \<and> length (terminations (controller s)) \<le> 1)"

text \<open>Concrete inputs for the examples.\<close>

definition hello_message :: ClientMessage where
  "hello_message = \<lparr>role = User, content = js ''Hello'', data = None\<rparr>"

definition assistant_reply :: ClientMessage where
  "assistant_reply = \<lparr>role = Assistant, content = js ''Hi there'', data = None\<rparr>"

definition empty_message :: ClientMessage where
  "empty_message = \<lparr>role = User, content = [], data = None\<rparr>"

definition picture :: FileData where
  "picture = \<lparr>fileDataUrl = Some (js ''data:image/png;base64,AAAA''),
              fileName = Some (js ''a.png''), fileType = Some (js ''image/png'')\<rparr>"

definition user_picture_message :: ClientMessage where
  "user_picture_message = \<lparr>role = User, content = [], data = Some picture\<rparr>"

definition assistant_picture_message :: ClientMessage where
  "assistant_picture_message = \<lparr>role = Assistant, content = [], data = Some picture\<rparr>"

definition chunk_hi :: ChatCompletionChunk where
  "chunk_hi = \<lparr>choices = Some [\<lparr>delta = Some \<lparr>delta_content = Some (js ''Hi'')\<rparr>,
                                 finish_reason = None\<rparr>]\<rparr>"

definition chunk_blank :: ChatCompletionChunk where
  "chunk_blank = \<lparr>choices = Some [\<lparr>delta = Some \<lparr>delta_content = Some []\<rparr>,
                                    finish_reason = None\<rparr>]\<rparr>"

definition chunk_there_stop :: ChatCompletionChunk where
  "chunk_there_stop = \<lparr>choices = Some [\<lparr>delta = Some \<lparr>delta_content = Some (js '' there'')\<rparr>,
                                         finish_reason = Some (js ''stop'')\<rparr>]\<rparr>"

definition chunk_late :: ChatCompletionChunk where
  "chunk_late = \<lparr>choices = Some [\<lparr>delta = Some \<lparr>delta_content = Some (js ''!!'')\<rparr>,
                                   finish_reason = None\<rparr>]\<rparr>"

definition awaiting_create_example :: relay where
  "awaiting_create_example =
     run [BodyResolved (ObjectBody (MessageArray [hello_message]))] (POST (Some (js ''key'')))"

definition streaming_example :: relay where
  "streaming_example =
     run [BodyResolved (ObjectBody (MessageArray [hello_message])), CreateResolved,
          ChunkArrives chunk_hi] (POST (Some (js ''key'')))"

definition aborted_text_error :: thrown where
  "aborted_text_error = APIError (js ''Error'') (js ''503 The operation was aborted'') (Some 503)"

definition rate_limit_error :: thrown where
  "rate_limit_error = APIError (js ''Error'') (js ''429 Rate limit exceeded'') (Some 429)"

section \<open>Auxiliary facts\<close>

lemmas seg_defs = on_body_def validation_failure_def catch_block_def on_create_def closeStream_def stream_catch_def
  on_chunk_def on_done_def cancel_def timer_callback_def

lemmas ctl_defs = ctl_enqueue_def ctl_close_def ctl_error_def ctl_read_def ctl_cancel_def
  canCloseOrEnqueue_def new_controller_def

subsection \<open>Normalisation\<close>

lemma prepare_loop_eq:
  "prepare_loop ms acc = acc @ map currentSdkMessage (filter (\<lambda>m. \<not> skipped m) ms)"
  by (induction ms arbitrary: acc) auto

lemma skipped_iff: "skipped m \<longleftrightarrow> \<not> survives m"
  by (simp add: skipped_def survives_def has_attachment_def data_fileDataUrl_def truthy_def
      split: option.splits)

lemma preparedMessages_eq:
  "preparedMessages ms =
     \<lparr>sdk_role = System, sdk_content = systemMessageContent\<rparr>
       # map currentSdkMessage (filter survives ms)"
  by (simp add: preparedMessages_def prepare_loop_eq skipped_iff)

subsection \<open>Trimming\<close>

lemma trim_core:
  "\<not> is_whitespace a \<Longrightarrow> \<not> is_whitespace b \<Longrightarrow> trim (a # xs @ [b]) = a # xs @ [b]"
  by (simp add: trim_def trimStart_def trimEnd_def)

lemma trim_ws_Cons: "is_whitespace w \<Longrightarrow> trim (w # xs) = trim xs"
  by (simp add: trim_def trimStart_def)

lemma dropWhile_snoc_keep: "\<not> P b \<Longrightarrow> dropWhile P (xs @ [b]) = dropWhile P xs @ [b]"
  by (induction xs) auto

lemma trimEnd_Cons_keep: "\<not> is_whitespace b \<Longrightarrow> trimEnd (b # t) = b # trimEnd t"
  by (simp add: trimEnd_def dropWhile_snoc_keep)

lemma trim_head:
  assumes "trim s = a # us"
  shows "\<not> is_whitespace a"
proof (cases "dropWhile is_whitespace s")
  case Nil
  with assms show ?thesis by (simp add: trim_def trimStart_def trimEnd_def)
next
  case (Cons b t)
  then have nb: "\<not> is_whitespace b"
    by (metis hd_dropWhile list.sel(1) list.distinct(1))
  with Cons assms have "a = b"
    by (simp add: trim_def trimStart_def trimEnd_Cons_keep)
  with nb show ?thesis by simp
qed

lemma ack_shape:
  "\<exists>xs. js ''[User has attached an image: '' @ [0x0022] @ name @ [0x0022]
            @ js ''. Please acknowledge this attachment.]'' = 0x5B # xs @ [0x5D]"
  by (simp add: js_def)

lemma trim_fileAcknowledgement:
  "trim (fileAcknowledgement name) =
     js ''[User has attached an image: '' @ [0x0022] @ name @ [0x0022]
       @ js ''. Please acknowledge this attachment.]''"
proof -
  let ?ack = "js ''[User has attached an image: '' @ [0x0022] @ name @ [0x0022]
       @ js ''. Please acknowledge this attachment.]''"
  obtain xs where xs: "?ack = 0x5B # xs @ [0x5D]" using ack_shape by blast
  have "fileAcknowledgement name = 0x0A # ?ack"
    by (simp add: fileAcknowledgement_def)
  then have "trim (fileAcknowledgement name) = trim ?ack"
    by (simp add: trim_ws_Cons is_whitespace_def)
  also have "\<dots> = ?ack"
    unfolding xs by (rule trim_core) (simp_all add: is_whitespace_def)
  finally show ?thesis .
qed

lemma combinedText_eq:
  "combinedText userText name =
     (if trim userText = [] then trim (fileAcknowledgement name)
      else trim userText @ js '' '' @ trim (fileAcknowledgement name))"
proof -
  obtain xs where xs: "trim (fileAcknowledgement name) = 0x5B # xs @ [0x5D]"
    using ack_shape trim_fileAcknowledgement by metis
  have nws: "\<not> is_whitespace 0x5B" "\<not> is_whitespace 0x5D" "is_whitespace 0x20"
    by (simp_all add: is_whitespace_def)
  show ?thesis
  proof (cases "trim userText")
    case Nil
    have "trim (0x20 # 0x5B # xs @ [0x5D]) = 0x5B # xs @ [0x5D]"
      using nws by (simp add: trim_ws_Cons trim_core)
    then show ?thesis
      by (simp add: combinedText_def Nil xs js_def)
  next
    case (Cons a us)
    then have na: "\<not> is_whitespace a" by (rule trim_head)
    have "trim (a # (us @ 0x20 # 0x5B # xs) @ [0x5D]) = a # (us @ 0x20 # 0x5B # xs) @ [0x5D]"
      using na nws(2) by (rule trim_core)
    then show ?thesis
      by (simp add: combinedText_def Cons xs js_def)
  qed
qed

lemma has_attachment_iff: "has_attachment m \<longleftrightarrow> truthy_opt (data_fileDataUrl m)"
  by (simp add: has_attachment_def data_fileDataUrl_def truthy_def split: option.splits)

lemma currentSdkMessage_eq:
  "currentSdkMessage m = \<lparr>sdk_role = role m, sdk_content = expected_content m\<rparr>"
proof (cases "role m = User \<and> truthy_opt (data_fileDataUrl m) \<and> truthy_opt (data_fileName m)")
  case True
  then obtain name where n: "data_fileName m = Some name" "name \<noteq> []"
    by (cases "data_fileName m") (simp_all add: truthy_def)
  have u: "(if truthy (content m) then content m else []) = content m"
    by (simp add: truthy_def)
  show ?thesis
    using True n
    by (simp add: currentSdkMessage_def expected_content_def has_attachment_iff Let_def u
        combinedText_eq trim_fileAcknowledgement acknowledgement_line_def)
next
  case False
  then show ?thesis
    by (auto simp: currentSdkMessage_def expected_content_def has_attachment_iff truthy_def
        split: option.splits)
qed

lemma sublist_ack: "sublist name (trim (fileAcknowledgement name))"
  unfolding trim_fileAcknowledgement by (metis sublist_appendI append_assoc)

lemma includes_combinedText: "js_includes (combinedText userText name) name"
  by (simp add: combinedText_eq js_includes_def sublist_ack sublist_append)

subsection \<open>Runs of the state machine\<close>

lemma run_append: "run (xs @ ys) s = run ys (run xs s)"
  by (induction xs arbitrary: s) simp_all

lemma timer_inv_POST: "timer_inv (POST apiKey)"
  by (simp add: timer_inv_def POST_def)

lemma timer_inv_step: "timer_inv s \<Longrightarrow> timer_inv (step e s)"
  by (cases e)
     (auto simp: timer_inv_def seg_defs split: parsed_body.splits messages_field.splits sum.splits option.splits)

lemma timer_inv_run: "timer_inv s \<Longrightarrow> timer_inv (run es s)"
  by (induction es arbitrary: s) (simp_all add: timer_inv_step)

lemma stream_inv_POST: "stream_inv (POST apiKey)"
  by (simp add: stream_inv_def POST_def ctl_defs)

lemma stream_inv_step: "stream_inv s \<Longrightarrow> stream_inv (step e s)"
  by (cases e)
     (auto simp: stream_inv_def seg_defs ctl_defs
           split: parsed_body.splits messages_field.splits sum.splits option.splits if_splits)

lemma stream_inv_run: "stream_inv s \<Longrightarrow> stream_inv (run es s)"
  by (induction es arbitrary: s) (simp_all add: stream_inv_step)

lemma responded_step:
  "phase s = Responded \<or> phase s = Threw \<Longrightarrow> \<not> timerArmed s \<Longrightarrow> step e s = s"
  by (cases e) auto

lemma responded_run:
  "phase s = Responded \<or> phase s = Threw \<Longrightarrow> \<not> timerArmed s \<Longrightarrow> run es s = s"
  by (induction es) (simp_all add: responded_step del: step.simps)

lemma ended_step:
  "phase s = StreamEnded \<Longrightarrow>
     phase (step e s) = StreamEnded
     \<and> enqueued (controller (step e s)) = enqueued (controller s)
     \<and> terminations (controller (step e s)) = terminations (controller s)"
  by (cases e) (simp_all add: cancel_def timer_callback_def ctl_read_def ctl_cancel_def)

lemma ended_run:
  "phase s = StreamEnded \<Longrightarrow>
     phase (run es s) = StreamEnded
     \<and> enqueued (controller (run es s)) = enqueued (controller s)
     \<and> terminations (controller (run es s)) = terminations (controller s)"
proof (induction es arbitrary: s)
  case Nil
  then show ?case by simp
next
  case (Cons e es)
  from ended_step [OF Cons.prems, of e] Cons.IH [of "step e s"] show ?case by simp
qed

lemma type_error_not_abort: "error_name controller_TypeError \<noteq> Some (js ''AbortError'')"
  by (simp add: controller_TypeError_def js_def)

lemma detached_step:
  "detached s \<Longrightarrow>
     detached (step e s) \<and> enqueued (controller (step e s)) = enqueued (controller s)"
  by (cases e)
     (auto simp: detached_def seg_defs ctl_defs type_error_not_abort
           split: option.splits sum.splits if_splits)

lemma detached_run:
  "detached s \<Longrightarrow>
     detached (run es s) \<and> enqueued (controller (run es s)) = enqueued (controller s)"
proof (induction es arbitrary: s)
  case Nil
  then show ?case by simp
next
  case (Cons e es)
  from detached_step [OF Cons.prems, of e] Cons.IH [of "step e s"] show ?case by simp
qed

subsection \<open>The streaming loop\<close>

lemma deltas_Nil: "deltas [] = []"
  by (simp add: deltas_def)

lemma deltas_Cons:
  "deltas (c # cs) =
     (case contentDelta c of None \<Rightarrow> [] | Some d \<Rightarrow> if truthy d then [d] else []) @ deltas cs"
  by (simp add: deltas_def)

lemma deltas_append: "deltas (xs @ ys) = deltas xs @ deltas ys"
  by (simp add: deltas_def)

lemma writable_chunk_continue:
  "writable s \<Longrightarrow> \<not> truthy_opt (finishReason c) \<Longrightarrow>
     writable (step (ChunkArrives c) s)
     \<and> enqueued (controller (step (ChunkArrives c) s))
         = enqueued (controller s) @ map encode (deltas [c])
     \<and> terminations (controller (step (ChunkArrives c) s)) = terminations (controller s)"
  by (simp add: writable_def on_chunk_def ctl_defs deltas_def split: option.splits)

lemma writable_chunk_finish:
  "writable s \<Longrightarrow> truthy_opt (finishReason c) \<Longrightarrow>
     phase (step (ChunkArrives c) s) = StreamEnded
     \<and> enqueued (controller (step (ChunkArrives c) s))
         = enqueued (controller s) @ map encode (deltas [c])
     \<and> terminations (controller (step (ChunkArrives c) s))
         = terminations (controller s) @ [GracefulClose]"
  by (simp add: writable_def on_chunk_def closeStream_def ctl_defs deltas_def
      split: option.splits)

lemma writable_other:
  "writable s \<Longrightarrow> e = ClientReads \<or> e = TimerElapses \<Longrightarrow>
     writable (step e s)
     \<and> enqueued (controller (step e s)) = enqueued (controller s)
     \<and> terminations (controller (step e s)) = terminations (controller s)"
  by (auto simp: writable_def timer_callback_def ctl_defs split: if_splits)

lemma writable_done:
  "writable s \<Longrightarrow>
     phase (step UpstreamDone s) = StreamEnded
     \<and> enqueued (controller (step UpstreamDone s)) = enqueued (controller s)
     \<and> terminations (controller (step UpstreamDone s))
         = terminations (controller s) @ [GracefulClose]"
  by (simp add: writable_def on_done_def closeStream_def ctl_defs)

lemma stream_loop:
  "writable s \<Longrightarrow> list_all streaming_event es \<Longrightarrow>
     enqueued (controller (run es s))
       = enqueued (controller s) @ map encode (deltas (consumed (chunks_of es)))
     \<and> (if list_ex (\<lambda>c. truthy_opt (finishReason c)) (chunks_of es)
        then phase (run es s) = StreamEnded
             \<and> terminations (controller (run es s))
                 = terminations (controller s) @ [GracefulClose]
        else writable (run es s)
             \<and> terminations (controller (run es s)) = terminations (controller s))"
proof (induction es arbitrary: s)
  case Nil
  then show ?case by (simp add: deltas_Nil)
next
  case (Cons e es)
  let ?t = "step e s"
  have rest: "list_all streaming_event es" using Cons.prems(2) by simp
  have r: "run (e # es) s = run es ?t" by simp
  show ?case
  proof (cases e)
    case (ChunkArrives c)
    show ?thesis
    proof (cases "truthy_opt (finishReason c)")
      case True
      have a: "phase ?t = StreamEnded"
        "enqueued (controller ?t) = enqueued (controller s) @ map encode (deltas [c])"
        "terminations (controller ?t) = terminations (controller s) @ [GracefulClose]"
        using writable_chunk_finish [OF Cons.prems(1) True] ChunkArrives by simp_all
      from ended_run [OF a(1), of es] a True show ?thesis
        unfolding r ChunkArrives by (simp del: step.simps)
    next
      case False
      have a: "writable ?t"
        "enqueued (controller ?t) = enqueued (controller s) @ map encode (deltas [c])"
        "terminations (controller ?t) = terminations (controller s)"
        using writable_chunk_continue [OF Cons.prems(1) False] ChunkArrives by simp_all
      from Cons.IH [OF a(1) rest] a False show ?thesis
        unfolding r ChunkArrives
        by (simp add: deltas_Cons deltas_Nil del: step.simps)
    qed
  next
    case ClientReads
    have a: "writable ?t" "enqueued (controller ?t) = enqueued (controller s)"
      "terminations (controller ?t) = terminations (controller s)"
      using writable_other [OF Cons.prems(1), of e] ClientReads by simp_all
    from Cons.IH [OF a(1) rest] a show ?thesis
      unfolding r ClientReads by (simp del: step.simps)
  next
    case TimerElapses
    have a: "writable ?t" "enqueued (controller ?t) = enqueued (controller s)"
      "terminations (controller ?t) = terminations (controller s)"
      using writable_other [OF Cons.prems(1), of e] TimerElapses by simp_all
    from Cons.IH [OF a(1) rest] a show ?thesis
      unfolding r TimerElapses by (simp del: step.simps)
  qed (use Cons.prems(2) in simp_all)
qed

lemma stream_whole:
  assumes "writable s" "list_all streaming_event es"
  shows "enqueued (controller (run (es @ [UpstreamDone]) s))
           = enqueued (controller s) @ map encode (deltas (consumed (chunks_of es)))
         \<and> terminations (controller (run (es @ [UpstreamDone]) s))
           = terminations (controller s) @ [GracefulClose]
         \<and> phase (run (es @ [UpstreamDone]) s) = StreamEnded"
  using stream_loop [OF assms] writable_done [of "run es s"]
        ended_step [of "run es s" UpstreamDone]
  by (cases "list_ex (\<lambda>c. truthy_opt (finishReason c)) (chunks_of es)")
     (simp_all add: run_append del: step.simps)

lemma writable_on_create:
  "phase s = AwaitingCreate \<Longrightarrow>
     writable (step CreateResolved s)
     \<and> enqueued (controller (step CreateResolved s)) = []
     \<and> terminations (controller (step CreateResolved s)) = []"
  by (simp add: writable_def on_create_def ctl_defs)

lemma chunks_of_map: "chunks_of (map ChunkArrives cs) = cs"
  by (induction cs) simp_all

lemma streaming_map: "list_all streaming_event (map ChunkArrives cs)"
  by (induction cs) simp_all

lemma consumed_split:
  "list_all (\<lambda>c. \<not> truthy_opt (finishReason c)) pre \<Longrightarrow> truthy_opt (finishReason c) \<Longrightarrow>
     consumed (pre @ c # post) = pre @ [c]"
  by (induction pre) simp_all

lemma consumed_butlast:
  "list_all (\<lambda>c. \<not> truthy_opt (finishReason c)) (butlast cs) \<Longrightarrow> consumed cs = cs"
  by (induction cs) (auto split: if_splits)

section \<open>Message normalisation\<close>

text \<open>
  C3. For every sequence of client messages (in particular every non-empty one, the only
  kind the handler normalises), the prepared sequence has one element more than the
  number of messages that survive the empty-turn filter, where a message is skipped
  exactly when it has neither content nor an attachment; its element 0 is the fixed
  system message; and the elements after it correspond one to one, in the original
  relative order, to the surviving client messages: the element for a surviving message
  carries that message's role and the content sent upstream for it (its original
  content, or for a user message with a named attachment its trimmed text followed by
  the acknowledgement line).
\<close>

theorem preparedMessages_shape:
  "length (preparedMessages clientMessages) = length (filter survives clientMessages) + 1
   \<and> skipped message = (content message = [] \<and> \<not> has_attachment message)
   \<and> preparedMessages clientMessages ! 0
       = \<lparr>sdk_role = System, sdk_content = systemMessageContent\<rparr>
   \<and> drop 1 (preparedMessages clientMessages)
       = map currentSdkMessage (filter survives clientMessages)
   \<and> map sdk_role (drop 1 (preparedMessages clientMessages))
       = map role (filter survives clientMessages)
   \<and> map sdk_content (drop 1 (preparedMessages clientMessages))
       = map expected_content (filter survives clientMessages)"
  by (auto simp: preparedMessages_eq skipped_iff survives_def currentSdkMessage_eq)

theorem preparedMessages_shape_witness:
  "length (preparedMessages
             [hello_message, empty_message, assistant_reply, user_picture_message]) = 4
   \<and> skipped empty_message
   \<and> preparedMessages [hello_message, empty_message, assistant_reply, user_picture_message] ! 0
       = \<lparr>sdk_role = System, sdk_content = systemMessageContent\<rparr>
   \<and> map sdk_role (drop 1 (preparedMessages
        [hello_message, empty_message, assistant_reply, user_picture_message]))
       = [User, Assistant, User]
   \<and> map sdk_content (drop 1 (preparedMessages
        [hello_message, empty_message, assistant_reply, user_picture_message]))
       = [js ''Hello'', js ''Hi there'',
          js ''[User has attached an image: '' @ [0x0022] @ js ''a.png'' @ [0x0022]
            @ js ''. Please acknowledge this attachment.]'']"
proof -
  let ?ms = "[hello_message, empty_message, assistant_reply, user_picture_message]"
  have f: "filter survives ?ms = [hello_message, assistant_reply, user_picture_message]"
    by (simp add: survives_def has_attachment_def hello_message_def empty_message_def
        assistant_reply_def user_picture_message_def picture_def js_def)
  have e: "content empty_message = [] \<and> \<not> has_attachment empty_message"
    by (simp add: has_attachment_def empty_message_def)
  have r: "map role [hello_message, assistant_reply, user_picture_message]
             = [User, Assistant, User]"
    by (simp add: hello_message_def assistant_reply_def user_picture_message_def)
  have c: "map expected_content [hello_message, assistant_reply, user_picture_message]
             = [js ''Hello'', js ''Hi there'',
                js ''[User has attached an image: '' @ [0x0022] @ js ''a.png'' @ [0x0022]
                  @ js ''. Please acknowledge this attachment.]'']"
    by (simp add: expected_content_def data_fileName_def has_attachment_def
        acknowledgement_line_def hello_message_def assistant_reply_def
        user_picture_message_def picture_def trim_def trimStart_def trimEnd_def js_def)
  note t = preparedMessages_shape [of ?ms empty_message, unfolded f r c]
  note t1 = t [THEN conjunct1]
  note t2 = t [THEN conjunct2, THEN conjunct1]
  note t3 = t [THEN conjunct2, THEN conjunct2, THEN conjunct1]
  note t5 = t [THEN conjunct2, THEN conjunct2, THEN conjunct2, THEN conjunct2, THEN conjunct1]
  note t6 = t [THEN conjunct2, THEN conjunct2, THEN conjunct2, THEN conjunct2, THEN conjunct2]
  show ?thesis
    using t1 t2 t3 t5 t6 e by simp
qed

text \<open>
  C4, as amended. For every client message of role user whose data carries a non-empty
  data URL and a non-empty file name, whatever its content (in particular when the
  content is empty), the upstream message built for that turn has role user and its
  content contains the file name. For a message of any other role, or whose data
  carries no non-empty file name, the handler forwards the role and the original
  content unchanged.
\<close>

theorem user_attachment_names_file:
  "(role message = User \<and> data message = Some d
      \<and> fileDataUrl d = Some url \<and> url \<noteq> []
      \<and> fileName d = Some name \<and> name \<noteq> []
     \<longrightarrow> sdk_role (currentSdkMessage message) = User
         \<and> js_includes (sdk_content (currentSdkMessage message)) name)
   \<and> (role message \<noteq> User \<or> \<not> truthy_opt (data_fileName message)
     \<longrightarrow> currentSdkMessage message
           = \<lparr>sdk_role = role message, sdk_content = content message\<rparr>)"
  by (auto simp: currentSdkMessage_def data_fileDataUrl_def data_fileName_def truthy_def
      Let_def includes_combinedText)

theorem user_attachment_names_file_witness:
  "role user_picture_message = User \<and> data user_picture_message = Some picture
   \<and> fileDataUrl picture = Some (js ''data:image/png;base64,AAAA'')
   \<and> fileName picture = Some (js ''a.png'')
   \<and> content user_picture_message = []
   \<and> js_includes (sdk_content (currentSdkMessage user_picture_message)) (js ''a.png'')
   \<and> role assistant_picture_message \<noteq> User
   \<and> currentSdkMessage assistant_picture_message
       = \<lparr>sdk_role = Assistant, sdk_content = []\<rparr>"
proof -
  have h: "role user_picture_message = User" "data user_picture_message = Some picture"
    "fileDataUrl picture = Some (js ''data:image/png;base64,AAAA'')"
    "js ''data:image/png;base64,AAAA'' \<noteq> []"
    "fileName picture = Some (js ''a.png'')" "js ''a.png'' \<noteq> []"
    "content user_picture_message = []"
    by (simp_all add: user_picture_message_def picture_def js_def)
  have g: "role assistant_picture_message = Assistant" "content assistant_picture_message = []"
    by (simp_all add: assistant_picture_message_def)
  show ?thesis
    using user_attachment_names_file
            [of user_picture_message picture "js ''data:image/png;base64,AAAA''" "js ''a.png''"]
          user_attachment_names_file [of assistant_picture_message] h g
    by simp
qed

text \<open>
  C4 as stated fails: an assistant message with empty content and an attachment named
  a.png is not skipped, and the content sent upstream for it is the empty original
  content, which does not contain the file name.
\<close>

theorem assistant_attachment_counterexample:
  "role assistant_picture_message = Assistant
   \<and> content assistant_picture_message = []
   \<and> has_attachment assistant_picture_message
   \<and> data_fileName assistant_picture_message = Some (js ''a.png'')
   \<and> \<not> skipped assistant_picture_message
   \<and> sdk_content (currentSdkMessage assistant_picture_message) = []
   \<and> \<not> js_includes (sdk_content (currentSdkMessage assistant_picture_message)) (js ''a.png'')"
  by (simp add: assistant_picture_message_def picture_def has_attachment_def
      data_fileName_def data_fileDataUrl_def skipped_def currentSdkMessage_def
      js_includes_def truthy_def js_def)

section \<open>The streaming loop\<close>

text \<open>
  C1, as amended. For every upstream sequence of completion chunks, delivered while the
  consumer reads and the clock runs, followed by the end of the upstream sequence: the
  byte chunks the relay enqueues are, one for one and in order, the encodings of the
  non-empty content deltas of the chunks up to and including the first chunk that
  carries a finish reason (of all the chunks when none does), so their concatenation is
  the concatenation of those encodings; empty and absent deltas contribute nothing. When
  no chunk before the last carries a finish reason these are the deltas of the whole
  sequence.
\<close>

theorem relay_output_is_consumed_deltas:
  assumes "phase s = AwaitingCreate" and "list_all streaming_event es"
  shows "enqueued (controller (run (CreateResolved # es @ [UpstreamDone]) s))
           = map encode (deltas (consumed (chunks_of es)))
         \<and> concat (enqueued (controller (run (CreateResolved # es @ [UpstreamDone]) s)))
           = concat (map encode (deltas (consumed (chunks_of es))))
         \<and> (list_all (\<lambda>c. \<not> truthy_opt (finishReason c)) (butlast (chunks_of es))
              \<longrightarrow> consumed (chunks_of es) = chunks_of es)"
proof -
  let ?t = "step CreateResolved s"
  have w: "writable ?t" "enqueued (controller ?t) = []"
    using writable_on_create [OF assms(1)] by simp_all
  have "enqueued (controller (run (es @ [UpstreamDone]) ?t))
          = map encode (deltas (consumed (chunks_of es)))"
    using stream_whole [OF w(1) assms(2)] w(2) by simp
  then show ?thesis
    by (simp add: consumed_butlast del: step.simps)
qed

theorem relay_output_is_consumed_deltas_witness:
  "phase awaiting_create_example = AwaitingCreate
   \<and> list_all streaming_event
        [ChunkArrives chunk_hi, ClientReads, ChunkArrives chunk_blank, TimerElapses,
         ChunkArrives chunk_there_stop]
   \<and> enqueued (controller (run (CreateResolved #
        [ChunkArrives chunk_hi, ClientReads, ChunkArrives chunk_blank, TimerElapses,
         ChunkArrives chunk_there_stop] @ [UpstreamDone]) awaiting_create_example))
      = [encode (js ''Hi''), encode (js '' there'')]"
proof -
  have h1: "phase awaiting_create_example = AwaitingCreate"
    by (simp add: awaiting_create_example_def POST_def on_body_def truthy_def js_def)
  have h2: "list_all streaming_event
        [ChunkArrives chunk_hi, ClientReads, ChunkArrives chunk_blank, TimerElapses,
         ChunkArrives chunk_there_stop]"
    by simp
  have e: "enqueued (controller (run (CreateResolved #
        [ChunkArrives chunk_hi, ClientReads, ChunkArrives chunk_blank, TimerElapses,
         ChunkArrives chunk_there_stop] @ [UpstreamDone]) awaiting_create_example))
      = map encode (deltas (consumed (chunks_of
        [ChunkArrives chunk_hi, ClientReads, ChunkArrives chunk_blank, TimerElapses,
         ChunkArrives chunk_there_stop])))"
    using relay_output_is_consumed_deltas [OF h1 h2] by (rule conjunct1)
  have d: "map encode (deltas (consumed (chunks_of
        [ChunkArrives chunk_hi, ClientReads, ChunkArrives chunk_blank, TimerElapses,
         ChunkArrives chunk_there_stop])))
      = [encode (js ''Hi''), encode (js '' there'')]"
    by (simp add: deltas_def chunk_hi_def chunk_blank_def chunk_there_stop_def
        finishReason_def contentDelta_def truthy_def js_def)
  show ?thesis
    by (intro conjI) (rule h1, rule h2, rule trans [OF e d])
qed

text \<open>
  C1 as stated fails: when a chunk with a finish reason is followed by a chunk with a
  non-empty delta, the relay enqueues only the deltas up to the finish-marked chunk, so
  the concatenation of its output differs from the concatenation of all the deltas.
\<close>

theorem delta_after_finish_counterexample:
  "deltas [chunk_hi, chunk_there_stop, chunk_late] = [js ''Hi'', js '' there'', js ''!!'']
   \<and> concat (enqueued (controller (run
        [CreateResolved, ChunkArrives chunk_hi, ChunkArrives chunk_there_stop,
         ChunkArrives chunk_late, UpstreamDone] awaiting_create_example)))
      = [0x48, 0x69, 0x20, 0x74, 0x68, 0x65, 0x72, 0x65]
   \<and> concat (map encode (deltas [chunk_hi, chunk_there_stop, chunk_late]))
      = [0x48, 0x69, 0x20, 0x74, 0x68, 0x65, 0x72, 0x65, 0x21, 0x21]
   \<and> concat (enqueued (controller (run
        [CreateResolved, ChunkArrives chunk_hi, ChunkArrives chunk_there_stop,
         ChunkArrives chunk_late, UpstreamDone] awaiting_create_example)))
      \<noteq> concat (map encode (deltas [chunk_hi, chunk_there_stop, chunk_late]))"
  by code_simp

text \<open>
  C7. When the first chunk that carries a finish reason arrives, the loop ends right
  after that chunk: the stream has ended, the output consists of the non-empty deltas
  of the chunks before it followed by that chunk's own delta (if non-empty), the stream
  is closed gracefully once, and whatever the environment delivers afterwards, further
  chunks included, adds nothing to the output.
\<close>

theorem finish_reason_stops_relay:
  assumes "phase s = AwaitingCreate"
    and "list_all (\<lambda>c. \<not> truthy_opt (finishReason c)) pre"
    and "truthy_opt (finishReason c)"
  shows "phase (run (CreateResolved # map ChunkArrives (pre @ [c])) s) = StreamEnded
         \<and> enqueued (controller (run (CreateResolved # map ChunkArrives (pre @ [c]) @ es) s))
           = map encode (deltas pre) @ map encode (deltas [c])
         \<and> terminations (controller (run (CreateResolved # map ChunkArrives (pre @ [c]) @ es) s))
           = [GracefulClose]"
proof -
  let ?t = "step CreateResolved s"
  let ?u = "run (map ChunkArrives (pre @ [c])) ?t"
  have w: "writable ?t" "enqueued (controller ?t) = []" "terminations (controller ?t) = []"
    using writable_on_create [OF assms(1)] by simp_all
  have ex: "list_ex (\<lambda>c. truthy_opt (finishReason c)) (pre @ [c])"
    using assms(3) by simp
  have co: "consumed (pre @ [c]) = pre @ [c]"
    using consumed_split [OF assms(2,3), of "[]"] by simp
  have u: "phase ?u = StreamEnded"
    "enqueued (controller ?u) = map encode (deltas pre) @ map encode (deltas [c])"
    "terminations (controller ?u) = [GracefulClose]"
    using stream_loop [OF w(1) streaming_map [of "pre @ [c]"]] ex
    unfolding chunks_of_map co w(2) w(3)
    by (simp_all add: deltas_append del: step.simps)
  have r: "run (CreateResolved # map ChunkArrives (pre @ [c]) @ es) s = run es ?u"
    by (simp add: run_append del: step.simps)
  have r0: "run (CreateResolved # map ChunkArrives (pre @ [c])) s = ?u"
    by (simp del: step.simps)
  show ?thesis
    unfolding r r0 using u ended_run [OF u(1), of es] by simp
qed

theorem finish_reason_stops_relay_witness:
  "phase awaiting_create_example = AwaitingCreate
   \<and> list_all (\<lambda>c. \<not> truthy_opt (finishReason c)) [chunk_hi]
   \<and> truthy_opt (finishReason chunk_there_stop)
   \<and> enqueued (controller (run (CreateResolved
        # map ChunkArrives ([chunk_hi] @ [chunk_there_stop])
        @ [ChunkArrives chunk_late, UpstreamDone]) awaiting_create_example))
      = [encode (js ''Hi''), encode (js '' there'')]"
proof -
  have h1: "phase awaiting_create_example = AwaitingCreate"
    by (simp add: awaiting_create_example_def POST_def on_body_def truthy_def js_def)
  have h2: "list_all (\<lambda>c. \<not> truthy_opt (finishReason c)) [chunk_hi]"
    by (simp add: chunk_hi_def finishReason_def)
  have h3: "truthy_opt (finishReason chunk_there_stop)"
    by (simp add: chunk_there_stop_def finishReason_def truthy_def js_def)
  have e: "enqueued (controller (run (CreateResolved
        # map ChunkArrives ([chunk_hi] @ [chunk_there_stop])
        @ [ChunkArrives chunk_late, UpstreamDone]) awaiting_create_example))
      = map encode (deltas [chunk_hi]) @ map encode (deltas [chunk_there_stop])"
    using finish_reason_stops_relay
            [OF h1 h2 h3, of "[ChunkArrives chunk_late, UpstreamDone]"]
    by blast
  have d: "map encode (deltas [chunk_hi]) @ map encode (deltas [chunk_there_stop])
             = [encode (js ''Hi''), encode (js '' there'')]"
    by (simp add: deltas_def chunk_hi_def chunk_there_stop_def contentDelta_def
        truthy_def js_def)
  show ?thesis
    by (intro conjI) (rule h1, rule h2, rule h3, rule trans [OF e d])
qed

section \<open>Validation and error responses\<close>

text \<open>
  C10. When the credential is absent, the handler answers at once with status 500 and
  the body "API key not configured": \<open>request.json()\<close> is never called, no upstream
  request is issued, and nothing the environment delivers afterwards changes that.
\<close>

theorem missing_api_key_500:
  "reply (run es (POST None))
     = Some \<lparr>resp_status = 500, resp_body = Text (js ''API key not configured'')\<rparr>
   \<and> \<not> bodyRequested (run es (POST None))
   \<and> upstreamCalls (run es (POST None)) = []
   \<and> run es (POST None) = POST None"
proof -
  have "phase (POST None) = Responded" "\<not> timerArmed (POST None)"
    by (simp_all add: POST_def)
  then have "run es (POST None) = POST None" by (intro responded_run) simp_all
  then show ?thesis by (simp add: POST_def)
qed

theorem missing_api_key_500_witness:
  "reply (run [BodyResolved (ObjectBody (MessageArray [hello_message])), CreateResolved,
               ChunkArrives chunk_hi, TimerElapses] (POST None))
     = Some \<lparr>resp_status = 500, resp_body = Text (js ''API key not configured'')\<rparr>
   \<and> upstreamCalls (run [BodyResolved (ObjectBody (MessageArray [hello_message])),
               CreateResolved, ChunkArrives chunk_hi, TimerElapses] (POST None)) = []"
  using missing_api_key_500
          [of "[BodyResolved (ObjectBody (MessageArray [hello_message])), CreateResolved,
                ChunkArrives chunk_hi, TimerElapses]"]
  by blast

text \<open>
  In every invocation that is waiting for the request body, when the body resolves to a
  value other than JSON null whose \<open>messages\<close> property is missing, not an array, or an
  empty array, the handler answers with status 400 and the text saying that the array
  is required and cannot be empty; no upstream request has been issued, and none is
  issued whatever the environment delivers afterwards.
\<close>

lemma invalid_messages_400:
  assumes "phase (run pre (POST apiKey)) = AwaitingBody"
    and "f = Missing \<or> f = NotArray \<or> f = MessageArray []"
  shows "reply (run (pre @ BodyResolved (ObjectBody f) # es) (POST apiKey))
           = Some \<lparr>resp_status = 400,
                   resp_body = Text (js ''Invalid request body: 'messages' array is required and cannot be empty.'')\<rparr>
         \<and> upstreamCalls (run (pre @ BodyResolved (ObjectBody f) # es) (POST apiKey)) = []"
proof -
  let ?s = "run pre (POST apiKey)"
  let ?t = "step (BodyResolved (ObjectBody f)) ?s"
  have "timer_inv ?s" by (rule timer_inv_run [OF timer_inv_POST])
  with assms(1) have up: "upstreamCalls ?s = []" by (simp add: timer_inv_def)
  have inv: "on_body (ObjectBody f) ?s = validation_failure ?s"
    using assms(2) by (auto simp: on_body_def)
  have t: "phase ?t = Responded" "\<not> timerArmed ?t" "upstreamCalls ?t = []"
    "reply ?t = Some \<lparr>resp_status = 400,
        resp_body = Text (js ''Invalid request body: 'messages' array is required and cannot be empty.'')\<rparr>"
    using assms(1) inv up by (simp_all add: validation_failure_def)
  have "run (pre @ BodyResolved (ObjectBody f) # es) (POST apiKey) = run es ?t"
    by (simp add: run_append del: step.simps)
  also have "\<dots> = ?t" using t(1,2) by (intro responded_run) simp_all
  finally show ?thesis using t by simp
qed

text \<open>
  C5. A request whose parsed body has no usable \<open>messages\<close> array is to be answered with
  status 400 and the text saying that the array is required and cannot be empty, and
  no upstream request is to be issued. The handler does so for an empty object, but
  not for a body that is JSON null: null has no \<open>messages\<close> field either, yet the
  destructuring of line 52 throws on it before the validation of line 54 is reached,
  and the catch block answers with status 500 and the text of the TypeError. In both
  cases no upstream request is issued.
\<close>

theorem null_body_answered_500:
  "reply (run [BodyResolved (ObjectBody Missing)] (POST (Some (js ''key''))))
     = Some \<lparr>resp_status = 400,
             resp_body = Text (js ''Invalid request body: 'messages' array is required and cannot be empty.'')\<rparr>
   \<and> reply (run [BodyResolved NullBody] (POST (Some (js ''key''))))
     = Some \<lparr>resp_status = 500,
             resp_body = Text (js ''Error processing request: ''
                                @ error_message destructure_TypeError)\<rparr>
   \<and> upstreamCalls (run [BodyResolved NullBody] (POST (Some (js ''key'')))) = []"
  by code_simp

text \<open>
  C6, as amended. When the upstream request is rejected, before any streaming, with an
  API error that the handler does not take for an abort (its name is not AbortError and
  its message does not contain "The operation was aborted"), and whose status is absent,
  0, or a status the response constructor accepts with a body (200 to 599 and not a
  null-body status), the response status is the upstream status when that is present
  and not 0, and 500 otherwise; the body is "AI Service Error: " followed by the
  upstream message (by a fixed text when the message is empty), so it contains the
  upstream message. An API error that the handler takes for an abort is answered with
  status 504 and the time-out text. In both cases no stream is produced.
\<close>

theorem api_error_response:
  assumes "phase s = AwaitingCreate"
  shows "(n \<noteq> js ''AbortError''
            \<and> \<not> js_includes m (js ''The operation was aborted'')
            \<and> (case st of None \<Rightarrow> True
                          | Some k \<Rightarrow> k = 0 \<or> (200 \<le> k \<and> k \<le> 599 \<and> \<not> null_body_status k))
          \<longrightarrow> reply (step (CreateRejected (APIError n m st)) s)
                = Some \<lparr>resp_status = (case st of None \<Rightarrow> 500
                                        | Some k \<Rightarrow> if k = 0 then 500 else k),
                        resp_body = Text (js ''AI Service Error: ''
                           @ (if m = [] then js ''An error occurred with the AI service.''
                              else m))\<rparr>
              \<and> js_includes (js ''AI Service Error: ''
                   @ (if m = [] then js ''An error occurred with the AI service.'' else m)) m
              \<and> phase (step (CreateRejected (APIError n m st)) s) = Responded)
         \<and> (is_abort (APIError n m st)
          \<longrightarrow> reply (step (CreateRejected (APIError n m st)) s)
                = Some \<lparr>resp_status = 504,
                        resp_body = Text (js ''The request to the AI service timed out.'')\<rparr>
              \<and> phase (step (CreateRejected (APIError n m st)) s) = Responded)"
  using assms
  by (auto simp: catch_block_def catch_response_def NextResponse_def null_body_status_def
      is_abort_def truthy_def js_includes_def split: option.splits)

theorem api_error_response_witness:
  "phase awaiting_create_example = AwaitingCreate
   \<and> reply (step (CreateRejected (APIError (js ''Error'') (js ''429 Rate limit exceeded'')
                                    (Some 429))) awaiting_create_example)
       = Some \<lparr>resp_status = 429,
               resp_body = Text (js ''AI Service Error: 429 Rate limit exceeded'')\<rparr>
   \<and> is_abort (APIError (js ''AbortError'') (js ''Request was aborted.'') None)
   \<and> reply (step (CreateRejected (APIError (js ''AbortError'') (js ''Request was aborted.'')
                                    None)) awaiting_create_example)
       = Some \<lparr>resp_status = 504,
               resp_body = Text (js ''The request to the AI service timed out.'')\<rparr>"
proof -
  have h1: "phase awaiting_create_example = AwaitingCreate"
    by (simp add: awaiting_create_example_def POST_def on_body_def truthy_def js_def)
  have h2: "js ''Error'' \<noteq> js ''AbortError''"
    by (simp add: js_def)
  have h3: "\<not> js_includes (js ''429 Rate limit exceeded'') (js ''The operation was aborted'')"
    by code_simp
  have h4: "(case Some (429::nat) of None \<Rightarrow> True
             | Some k \<Rightarrow> k = 0 \<or> (200 \<le> k \<and> k \<le> 599 \<and> \<not> null_body_status k))"
    by (simp add: null_body_status_def)
  have h5: "is_abort (APIError (js ''AbortError'') (js ''Request was aborted.'') None)"
    by (simp add: is_abort_def)
  have e: "js ''429 Rate limit exceeded'' \<noteq> []"
          "js ''AI Service Error: '' @ js ''429 Rate limit exceeded''
             = js ''AI Service Error: 429 Rate limit exceeded''"
    by (simp_all add: js_def)
  show ?thesis
    using api_error_response
            [OF h1, of "js ''Error''" "js ''429 Rate limit exceeded''" "Some 429"]
          api_error_response [OF h1, of "js ''AbortError''" "js ''Request was aborted.''" None]
          h1 h2 h3 h4 h5 e
    by (simp del: step.simps)
qed

text \<open>
  For a status the response constructor refuses (here the null-body status 304), the
  constructor throws inside the catch block and the handler returns no response.
\<close>

lemma api_error_refused_status:
  "phase (step (CreateRejected (APIError (js ''Error'') (js ''304 Not Modified'') (Some 304)))
            awaiting_create_example) = Threw
   \<and> reply (step (CreateRejected (APIError (js ''Error'') (js ''304 Not Modified'') (Some 304)))
            awaiting_create_example) = None"
  by code_simp

text \<open>
  C6 as stated fails: an API error with status 503 whose message contains "The operation
  was aborted" is taken for an abort by the test of line 181, which comes first, and is
  answered with status 504 and the time-out text, which does not contain the upstream
  message.
\<close>

theorem api_error_taken_for_abort_counterexample:
  "phase awaiting_create_example = AwaitingCreate
   \<and> aborted_text_error = APIError (js ''Error'') (js ''503 The operation was aborted'') (Some 503)
   \<and> reply (step (CreateRejected aborted_text_error) awaiting_create_example)
       = Some \<lparr>resp_status = 504,
               resp_body = Text (js ''The request to the AI service timed out.'')\<rparr>
   \<and> \<not> js_includes (js ''The request to the AI service timed out.'')
                    (js ''503 The operation was aborted'')"
  by code_simp

section \<open>Termination, cancellation and the deadline\<close>

text \<open>
  C8. \<open>closeStream\<close> is idempotent: a second invocation changes nothing. Invoking it
  when it has already run, or when the stream has already been terminated (closed,
  cancelled or errored), leaves the controller as it is, so no further termination is
  recorded. In every run of the handler at most one termination action takes effect on
  the stream, also when \<open>closeStream\<close> is invoked once more at the end.
\<close>

theorem closeStream_idempotent:
  "closeStream (closeStream s) = closeStream s
   \<and> (streamClosed s \<or> \<not> canCloseOrEnqueue (controller s)
        \<longrightarrow> controller (closeStream s) = controller s)
   \<and> terminations (controller (closeStream (closeStream s)))
       = terminations (controller (closeStream s))
   \<and> length (terminations (controller (run es (POST apiKey)))) \<le> 1
   \<and> length (terminations (controller (closeStream (run es (POST apiKey))))) \<le> 1"
proof -
  let ?r = "run es (POST apiKey)"
  have i: "stream_inv ?r" by (rule stream_inv_run [OF stream_inv_POST])
  have a: "closeStream (closeStream s) = closeStream s"
    by (simp add: closeStream_def)
  have b: "streamClosed s \<or> \<not> canCloseOrEnqueue (controller s)
             \<longrightarrow> controller (closeStream s) = controller s"
    by (auto simp: closeStream_def ctl_close_def)
  have c: "length (terminations (controller ?r)) \<le> 1"
    using i by (simp add: stream_inv_def)
  have d: "length (terminations (controller (closeStream ?r))) \<le> 1"
    using i by (auto simp: stream_inv_def closeStream_def ctl_close_def)
  show ?thesis using a b c d by simp
qed

theorem closeStream_idempotent_witness:
  "\<not> canCloseOrEnqueue (controller (run [UpstreamThrows rate_limit_error] streaming_example))
   \<and> terminations (controller (run [UpstreamThrows rate_limit_error] streaming_example))
       = [ErrorRaised rate_limit_error]
   \<and> controller (closeStream (run [UpstreamThrows rate_limit_error] streaming_example))
       = controller (run [UpstreamThrows rate_limit_error] streaming_example)
   \<and> terminations (controller (closeStream (closeStream (run [UpstreamDone] streaming_example))))
       = [GracefulClose]"
proof -
  have h: "\<not> canCloseOrEnqueue
               (controller (run [UpstreamThrows rate_limit_error] streaming_example))"
    "terminations (controller (run [UpstreamThrows rate_limit_error] streaming_example))
       = [ErrorRaised rate_limit_error]"
    "terminations (controller (closeStream (run [UpstreamDone] streaming_example)))
       = [GracefulClose]"
    by code_simp+
  show ?thesis
    using closeStream_idempotent
            [of "run [UpstreamThrows rate_limit_error] streaming_example" "[]" None]
          closeStream_idempotent [of "run [UpstreamDone] streaming_example" "[]" None]
          h
    by simp
qed

text \<open>
  C9. In every invocation, when the consumer cancels the stream while the loop is still
  reading from upstream, the \<open>cancel\<close> callback leaves the abort controller aborted:
  it issues the abort with the reason "Client cancelled stream" unless the controller
  was aborted already, in which case it issues nothing. Over the whole invocation at
  most one abort is ever issued, and after the cancellation no further bytes are
  written to the stream, whatever the environment delivers.
\<close>

theorem cancel_aborts_upstream_once:
  assumes "s = run pre (POST apiKey)"
    and "phase s = Streaming" and "cstate (controller s) = Readable"
  shows "aborted (step ClientCancels s)
         \<and> abortCalls (step ClientCancels s)
             = (if aborted s then abortCalls s
                else abortCalls s @ [js ''Client cancelled stream''])
         \<and> length (abortCalls (run es (step ClientCancels s))) \<le> 1
         \<and> enqueued (controller (run es (step ClientCancels s))) = enqueued (controller s)"
proof -
  let ?t = "step ClientCancels s"
  have a: "aborted ?t"
    "abortCalls ?t = (if aborted s then abortCalls s
                      else abortCalls s @ [js ''Client cancelled stream''])"
    using assms(2,3) by (simp_all add: cancel_def)
  have "timer_inv s" unfolding assms(1) by (rule timer_inv_run [OF timer_inv_POST])
  then have "timer_inv (run es ?t)" by (intro timer_inv_run timer_inv_step)
  then have b: "length (abortCalls (run es ?t)) \<le> 1" by (simp add: timer_inv_def)
  have "detached ?t" "enqueued (controller ?t) = enqueued (controller s)"
    using assms(2,3) by (simp_all add: detached_def cancel_def ctl_cancel_def)
  with detached_run [of ?t es]
  have c: "enqueued (controller (run es ?t)) = enqueued (controller s)" by simp
  show ?thesis using a b c by (simp del: step.simps)
qed

theorem cancel_aborts_upstream_once_witness:
  "phase streaming_example = Streaming
   \<and> cstate (controller streaming_example) = Readable
   \<and> \<not> aborted streaming_example
   \<and> aborted (step ClientCancels streaming_example)
   \<and> abortCalls (step ClientCancels streaming_example) = [js ''Client cancelled stream'']
   \<and> enqueued (controller (run [ChunkArrives chunk_there_stop, ClientCancels, UpstreamDone]
        (step ClientCancels streaming_example))) = [encode (js ''Hi'')]"
proof -
  have h: "streaming_example
             = run [BodyResolved (ObjectBody (MessageArray [hello_message])), CreateResolved,
                    ChunkArrives chunk_hi] (POST (Some (js ''key'')))"
    by (simp only: streaming_example_def)
  have e: "phase streaming_example = Streaming"
    "cstate (controller streaming_example) = Readable"
    "\<not> aborted streaming_example" "abortCalls streaming_example = []"
    "enqueued (controller streaming_example) = [encode (js ''Hi'')]"
    by code_simp+
  show ?thesis
    using cancel_aborts_upstream_once
            [OF h e(1,2), of "[ChunkArrives chunk_there_stop, ClientCancels, UpstreamDone]"] e
    by (simp del: step.simps)
qed

text \<open>
  C2, as amended. In every invocation the deadline is armed exactly while the handler
  awaits the request body or the initial upstream response: if it elapses there, the
  timer callback aborts the upstream call through the abort controller with the reason
  "API Call Timeout", and a rejection of the create call that the handler recognises as
  an abort is answered with status 504. Once the create call has resolved the timer is
  cleared: while deltas are streamed, and after the stream has ended, the deadline is
  not armed and its elapsing changes nothing.
\<close>

theorem deadline_armed_until_create_resolves:
  assumes "s = run es (POST apiKey)"
  shows "((phase s = AwaitingBody \<or> phase s = AwaitingCreate) \<and> \<not> aborted s
            \<longrightarrow> timerArmed s \<and> aborted (step TimerElapses s)
                \<and> abortCalls (step TimerElapses s) = [js ''API Call Timeout''])
         \<and> (phase s = AwaitingCreate \<and> is_abort e
            \<longrightarrow> reply (step (CreateRejected e) s)
                  = Some \<lparr>resp_status = 504,
                          resp_body = Text (js ''The request to the AI service timed out.'')\<rparr>)
         \<and> (phase s = Streaming \<or> phase s = StreamEnded
            \<longrightarrow> \<not> timerArmed s \<and> step TimerElapses s = s)"
proof -
  have i: "timer_inv s" unfolding assms by (rule timer_inv_run [OF timer_inv_POST])
  have a: "(phase s = AwaitingBody \<or> phase s = AwaitingCreate) \<and> \<not> aborted s
            \<longrightarrow> timerArmed s \<and> aborted (step TimerElapses s)
                \<and> abortCalls (step TimerElapses s) = [js ''API Call Timeout'']"
    using i by (auto simp: timer_inv_def timer_callback_def)
  have b: "phase s = AwaitingCreate \<and> is_abort e
            \<longrightarrow> reply (step (CreateRejected e) s)
                  = Some \<lparr>resp_status = 504,
                          resp_body = Text (js ''The request to the AI service timed out.'')\<rparr>"
    by (simp add: catch_block_def catch_response_def)
  have c: "phase s = Streaming \<or> phase s = StreamEnded
            \<longrightarrow> \<not> timerArmed s \<and> step TimerElapses s = s"
    using i by (auto simp: timer_inv_def)
  show ?thesis using a b c by blast
qed

theorem deadline_armed_until_create_resolves_witness:
  "phase awaiting_create_example = AwaitingCreate \<and> \<not> aborted awaiting_create_example
   \<and> timerArmed awaiting_create_example
   \<and> aborted (step TimerElapses awaiting_create_example)
   \<and> abortCalls (step TimerElapses awaiting_create_example) = [js ''API Call Timeout'']
   \<and> is_abort (OtherError (js ''AbortError'') (js ''This operation was aborted''))
   \<and> reply (step (CreateRejected (OtherError (js ''AbortError'') (js ''This operation was aborted'')))
               awaiting_create_example)
       = Some \<lparr>resp_status = 504,
               resp_body = Text (js ''The request to the AI service timed out.'')\<rparr>
   \<and> phase streaming_example = Streaming
   \<and> \<not> timerArmed streaming_example
   \<and> step TimerElapses streaming_example = streaming_example"
proof -
  have h1: "awaiting_create_example
              = run [BodyResolved (ObjectBody (MessageArray [hello_message]))]
                    (POST (Some (js ''key'')))"
    by (simp only: awaiting_create_example_def)
  have h2: "streaming_example
              = run [BodyResolved (ObjectBody (MessageArray [hello_message])), CreateResolved,
                     ChunkArrives chunk_hi] (POST (Some (js ''key'')))"
    by (simp only: streaming_example_def)
  have e: "phase awaiting_create_example = AwaitingCreate" "\<not> aborted awaiting_create_example"
    "is_abort (OtherError (js ''AbortError'') (js ''This operation was aborted''))"
    "phase streaming_example = Streaming"
    by code_simp+
  show ?thesis
    using deadline_armed_until_create_resolves
            [OF h1, of "OtherError (js ''AbortError'') (js ''This operation was aborted'')"]
          deadline_armed_until_create_resolves [OF h2] e
    by (simp del: step.simps)
qed

text \<open>
  C2 as stated fails: after the create call has resolved and a first delta has been
  streamed, the timer is no longer armed; when the deadline elapses there, before the
  upstream sequence is exhausted, nothing is aborted, the remaining delta is relayed
  and the stream is closed gracefully.
\<close>

theorem deadline_during_streaming_counterexample:
  "phase streaming_example = Streaming
   \<and> enqueued (controller streaming_example) = [[0x48, 0x69]]
   \<and> \<not> timerArmed streaming_example
   \<and> \<not> aborted (run [TimerElapses] streaming_example)
   \<and> phase (run [TimerElapses] streaming_example) = Streaming
   \<and> abortCalls (run [TimerElapses, ChunkArrives chunk_there_stop, UpstreamDone]
        streaming_example) = []
   \<and> enqueued (controller (run [TimerElapses, ChunkArrives chunk_there_stop, UpstreamDone]
        streaming_example)) = [[0x48, 0x69], [0x20, 0x74, 0x68, 0x65, 0x72, 0x65]]
   \<and> terminations (controller (run [TimerElapses, ChunkArrives chunk_there_stop, UpstreamDone]
        streaming_example)) = [GracefulClose]"
  by code_simp

end
